theory Spec2Isabelle
  imports Complex_Main "HOL-Library.AList"
begin

section \<open>The cost tracker: data model\<close>

text \<open>
  A shallow embedding of \<^verbatim>\<open>claude-cost-tracker.py\<close>.

  Conventions of the model.
  \<^item> Python \<^verbatim>\<open>int\<close> is \<^typ>\<open>int\<close>. Python \<^verbatim>\<open>float\<close> is idealised as \<^typ>\<open>real\<close>:
    every arithmetic operation is exact. The rounding of IEEE doubles is outside the
    model, and so is the \<^verbatim>\<open>OverflowError\<close> that Python raises when an integer beyond
    the range of a double (about \<open>1.8 * 10^308\<close>) is converted or divided.
  \<^item> The session directory is a map from file names (relative to the directory) to
    file contents: a session written by \<^verbatim>\<open>json.dump\<close> or a report. \<^verbatim>\<open>json.load\<close> of
    what \<^verbatim>\<open>json.dump\<close> wrote gives back the same dictionary, so a JSON file simply
    holds the session value. Failures of the file system itself are not modelled.
  \<^item> A Python \<^verbatim>\<open>dict\<close> whose iteration order is used (the per-operation and per-model
    counters) is an association list in insertion order.
  \<^item> What the environment supplies (the clock, the working directory, the revision
    lookup) is an argument of the operation that reads it.
  \<^item> Every \<^verbatim>\<open>print\<close> is a value of type \<open>message\<close>, returned in order; the formatted
    numbers are kept as the numbers that are formatted.
  \<^item> Every exception the code can raise in the modelled part is a value of \<open>error\<close>.
\<close>

datatype error = KeyError | ZeroDivisionError | IndexError | JSONDecodeError

record ModelPricing =
  input_price_per_1k :: real
  output_price_per_1k :: real

definition MODEL_PRICING :: "(string \<times> ModelPricing) list" where
  "MODEL_PRICING =
    [(''claude-sonnet-4'', \<lparr>input_price_per_1k = 3.0, output_price_per_1k = 15.0\<rparr>),
     (''claude-opus-4'', \<lparr>input_price_per_1k = 15.0, output_price_per_1k = 75.0\<rparr>),
     (''claude-haiku-3'', \<lparr>input_price_per_1k = 0.25, output_price_per_1k = 1.25\<rparr>),
     (''claude-sonnet-3.5'', \<lparr>input_price_per_1k = 3.0, output_price_per_1k = 15.0\<rparr>)]"

subsection \<open>Dates and times\<close>

text \<open>
  A \<^verbatim>\<open>datetime.datetime\<close> without time zone, as the fields the object holds.
  \<^verbatim>\<open>isoformat\<close> writes them, \<^verbatim>\<open>fromisoformat\<close> reads them back, so the model keeps
  the object where the JSON file keeps the string and applies \<open>isoformat\<close> where the code
  works on the string itself. The difference of two objects follows the library: the
  day number of the proleptic Gregorian calendar (for a month from 1 to 12, as every
  \<^verbatim>\<open>datetime\<close> object has), then seconds and microseconds.
\<close>

record datetime =
  year :: nat
  month :: nat
  day :: nat
  hour :: nat
  minute :: nat
  second :: nat
  microsecond :: nat

text \<open>A \<^verbatim>\<open>timedelta\<close> is a whole number of microseconds.\<close>

type_synonym timedelta = int

definition is_leap :: "nat \<Rightarrow> bool" where
  "is_leap y \<longleftrightarrow> y mod 4 = 0 \<and> (y mod 100 \<noteq> 0 \<or> y mod 400 = 0)"

definition days_before_year :: "nat \<Rightarrow> int" where
  "days_before_year y =
     (let z = int y - 1 in z * 365 + z div 4 - z div 100 + z div 400)"

definition days_before_month :: "nat \<Rightarrow> nat \<Rightarrow> int" where
  "days_before_month y m =
     int ([0, 31, 59, 90, 120, 151, 181, 212, 243, 273, 304, 334] ! (m - 1))
       + (if m > 2 \<and> is_leap y then 1 else 0)"

definition toordinal :: "datetime \<Rightarrow> int" where
  "toordinal d = days_before_year (year d) + days_before_month (year d) (month d) + int (day d)"

definition datetime_sub :: "datetime \<Rightarrow> datetime \<Rightarrow> timedelta" where
  "datetime_sub a b =
     (let secs1 = int (second a) + int (minute a) * 60 + int (hour a) * 3600;
          secs2 = int (second b) + int (minute b) * 60 + int (hour b) * 3600
      in ((toordinal a - toordinal b) * 86400 + (secs1 - secs2)) * 1000000
           + (int (microsecond a) - int (microsecond b)))"

definition total_seconds :: "timedelta \<Rightarrow> real" where
  "total_seconds td = real_of_int td / 1000000"

text \<open>Decimal digits, zero padded to a width: \<^verbatim>\<open>%02d\<close>, \<^verbatim>\<open>%04d\<close>, \<^verbatim>\<open>%06d\<close>.\<close>

definition digit_char :: "nat \<Rightarrow> char" where
  "digit_char n = ''0123456789'' ! (n mod 10)"

fun zero_pad :: "nat \<Rightarrow> nat \<Rightarrow> string" where
  "zero_pad 0 n = (if n = 0 then [] else zero_pad 0 (n div 10) @ [digit_char n])"
| "zero_pad (Suc w) n = zero_pad w (n div 10) @ [digit_char n]"

definition strftime_HMS :: "datetime \<Rightarrow> string" where
  "strftime_HMS d = zero_pad 2 (hour d) @ '':'' @ zero_pad 2 (minute d) @ '':'' @ zero_pad 2 (second d)"

definition strftime_Ymd :: "datetime \<Rightarrow> string" where
  "strftime_Ymd d = zero_pad 4 (year d) @ ''-'' @ zero_pad 2 (month d) @ ''-'' @ zero_pad 2 (day d)"

definition isoformat :: "datetime \<Rightarrow> string" where
  "isoformat d =
     strftime_Ymd d @ ''T'' @ strftime_HMS d
       @ (if microsecond d \<noteq> 0 then ''.'' @ zero_pad 6 (microsecond d) else [])"

text \<open>
  \<^verbatim>\<open>strftime("%Y%m%d_%H%M%S")\<close>, the session identifier (with the year on four digits,
  as the C library prints every year from 1000 on).
\<close>

definition strftime_id :: "datetime \<Rightarrow> string" where
  "strftime_id d =
     zero_pad 4 (year d) @ zero_pad 2 (month d) @ zero_pad 2 (day d) @ ''_''
       @ zero_pad 2 (hour d) @ zero_pad 2 (minute d) @ zero_pad 2 (second d)"

subsection \<open>Sessions\<close>

text \<open>
  The two dataclasses. The fields \<^verbatim>\<open>total_cost\<close> and \<^verbatim>\<open>context\<close> of an entry are
  \<open>entry_total_cost\<close> and \<open>entry_context\<close> here; \<open>total_cost\<close> is the field of the
  session.
\<close>

record SessionEntry =
  timestamp :: datetime
  operation :: string
  model :: string
  tokens_input :: int
  tokens_output :: int
  cost_input :: real
  cost_output :: real
  entry_total_cost :: real
  entry_context :: string

record SessionSummary =
  session_id :: string
  session_name :: string
  start_time :: datetime
  end_time :: "datetime option"
  project_path :: string
  git_commit_start :: "string option"
  git_commit_end :: "string option"
  total_entries :: int
  total_tokens_input :: int
  total_tokens_output :: int
  total_cost :: real
  operations :: "(string \<times> int) list"
  models_used :: "(string \<times> int) list"
  entries :: "SessionEntry list"

section \<open>Operations\<close>

subsection \<open>Console output\<close>

text \<open>
  One constructor for each \<^verbatim>\<open>print\<close> of the class, in the order of the source, with the
  values the line formats: the warning of \<^verbatim>\<open>calculate_cost\<close>; the two lines of
  \<^verbatim>\<open>start_session\<close> (name and identifier, context); the lines of \<^verbatim>\<open>log_usage\<close>
  ("No active session. Start a session first ...", tokens in and out with cost and model;
  the context line is shared); those of \<^verbatim>\<open>end_session\<close> ("No active session to end.",
  name, total cost, token totals, report path); those of \<^verbatim>\<open>status\<close> ("No active
  session", name, cost, entries, tokens, last activity with operation and time).
\<close>

datatype message =
    UnknownModelWarning string
  | Started string string
  | ContextLine string
  | NoActiveSessionLog
  | Logged int int real string
  | NoActiveSessionEnd
  | SessionEnded string
  | TotalCostLine real
  | TotalTokensLine int int
  | ReportSaved string
  | NoActiveSessionStatus
  | ActiveSession string
  | CurrentCost real
  | TotalEntries int
  | Tokens int int
  | LastActivity string string

subsection \<open>Pricing\<close>

text \<open>
  \<^verbatim>\<open>calculate_cost\<close>: the warning printed, if any, and the triple returned.
  \<^verbatim>\<open>MODEL_PRICING[model]\<close> raises \<^verbatim>\<open>KeyError\<close> on a missing key.
\<close>

definition calculate_cost ::
  "string \<Rightarrow> int \<Rightarrow> int \<Rightarrow> message list \<times> (error + real \<times> real \<times> real)" where
  "calculate_cost mdl tokens_in tokens_out =
     (let (out, mdl') =
            (if map_of MODEL_PRICING mdl = None
             then ([UnknownModelWarning mdl], ''claude-sonnet-4'')
             else ([], mdl))
      in case map_of MODEL_PRICING mdl' of
           None \<Rightarrow> (out, Inl KeyError)
         | Some pricing \<Rightarrow>
             (let c_in = (real_of_int tokens_in / 1000.0) * input_price_per_1k pricing;
                  c_out = (real_of_int tokens_out / 1000.0) * output_price_per_1k pricing;
                  c_total = c_in + c_out
              in (out, Inr (c_in, c_out, c_total))))"

subsection \<open>The report and the session directory\<close>

text \<open>
  The report is one string built piece by piece; each constructor is one piece, with the
  values that the piece formats:
  \<^item> \<open>Overview\<close>: the title and the overview table (identifier, name, start, end,
    duration, project path, the two revisions);
  \<^item> \<open>CostSummary\<close>: total cost, input, output and total tokens, average cost per token;
  \<^item> \<open>OperationLine\<close>, \<open>ModelLine\<close>: one line of a breakdown (key, count, percentage;
    the operation is printed through \<^verbatim>\<open>str.title\<close>);
  \<^item> \<open>ActivityRow\<close>: one row of the activity log (time, operation, model, tokens in and
    out, cost, context preview);
  \<^item> \<open>CostAnalysis\<close>: duration, total cost, hourly rate, output to input ratio, tokens
    per minute;
  \<^item> the four insights, and the closing notes with the session cost.
\<close>

datatype report_item =
    Overview string string datetime datetime timedelta string "string option" "string option"
  | CostSummary real int int int real
  | OperationLine string int real
  | ByModelHeading
  | ModelLine string int real
  | ActivityLogHeading
  | ActivityRow string string string int int real string
  | CostAnalysis timedelta real real real real
  | HighCostInsight real
  | LowOutputRatioInsight
  | HighOutputRatioInsight
  | HeavyOpusInsight
  | SessionNotes real

datatype file_content = Session_json SessionSummary | Report_md "report_item list"

type_synonym session_dir = "string \<rightharpoonup> file_content"

definition current_session_file :: string where
  "current_session_file = ''current_session.json''"

subsection \<open>Starting a session\<close>

text \<open>
  \<^verbatim>\<open>start_session\<close> reads the clock twice (\<open>now_id\<close> for the identifier, \<open>now_start\<close> for
  the start time), the working directory and the revision. It returns the directory, the
  lines printed and the identifier.
\<close>

definition start_session ::
  "session_dir \<Rightarrow> datetime \<Rightarrow> datetime \<Rightarrow> string \<Rightarrow> string option \<Rightarrow> string \<Rightarrow> string
     \<Rightarrow> session_dir \<times> message list \<times> string" where
  "start_session fs now_id now_start cwd git name ctx =
     (let sid = strftime_id now_id;
          session = \<lparr>session_id = sid, session_name = name, start_time = now_start,
                     end_time = None, project_path = cwd, git_commit_start = git,
                     git_commit_end = None, total_entries = 0, total_tokens_input = 0,
                     total_tokens_output = 0, total_cost = 0.0, operations = [],
                     models_used = [], entries = []\<rparr>
      in (fs(current_session_file \<mapsto> Session_json session),
          [Started name sid] @ (if ctx \<noteq> [] then [ContextLine ctx] else []),
          sid))"

subsection \<open>Logging usage\<close>

text \<open>
  \<^verbatim>\<open>if k not in d: d[k] = 0\<close> followed by \<^verbatim>\<open>d[k] += 1\<close>. A new key goes to the end of
  the dictionary, a present key keeps its place.
\<close>

definition incr_count :: "string \<Rightarrow> (string \<times> int) list \<Rightarrow> error + (string \<times> int) list" where
  "incr_count k d =
     (let d' = (if map_of d k = None then AList.update k 0 d else d)
      in case map_of d' k of
           None \<Rightarrow> Inl KeyError
         | Some n \<Rightarrow> Inr (AList.update k (n + 1) d'))"

definition log_usage ::
  "session_dir \<Rightarrow> datetime \<Rightarrow> int \<Rightarrow> int \<Rightarrow> string \<Rightarrow> string \<Rightarrow> string
     \<Rightarrow> session_dir \<times> message list \<times> (error + unit)" where
  "log_usage fs now tokens_in tokens_out mdl opn ctx =
     (case fs current_session_file of
        None \<Rightarrow> (fs, [NoActiveSessionLog], Inr ())
      | Some (Report_md _) \<Rightarrow> (fs, [], Inl JSONDecodeError)
      | Some (Session_json session_data) \<Rightarrow>
          (case calculate_cost mdl tokens_in tokens_out of
             (out, Inl e) \<Rightarrow> (fs, out, Inl e)
           | (out, Inr (c_in, c_out, c_total)) \<Rightarrow>
               (let entry = \<lparr>timestamp = now, operation = opn, model = mdl,
                              tokens_input = tokens_in, tokens_output = tokens_out,
                              cost_input = c_in, cost_output = c_out,
                              entry_total_cost = c_total, entry_context = ctx\<rparr>;
                    s1 = session_data
                           \<lparr>entries := entries session_data @ [entry],
                            total_entries := total_entries session_data + 1,
                            total_tokens_input := total_tokens_input session_data + tokens_in,
                            total_tokens_output := total_tokens_output session_data + tokens_out,
                            total_cost := total_cost session_data + c_total\<rparr>
                in case incr_count opn (operations s1) of
                     Inl e \<Rightarrow> (fs, out, Inl e)
                   | Inr ops \<Rightarrow>
                       (case incr_count mdl (models_used s1) of
                          Inl e \<Rightarrow> (fs, out, Inl e)
                        | Inr mods \<Rightarrow>
                            (fs(current_session_file \<mapsto>
                                  Session_json (s1\<lparr>operations := ops, models_used := mods\<rparr>)),
                             out @ [Logged tokens_in tokens_out c_total mdl]
                               @ (if ctx \<noteq> [] then [ContextLine ctx] else []),
                             Inr ())))))"

subsection \<open>The report\<close>

text \<open>
  One breakdown loop: \<^verbatim>\<open>percentage = (count / total_entries) * 100\<close> for each item of
  the dictionary, in order. The division of two integers raises \<^verbatim>\<open>ZeroDivisionError\<close>
  when \<^verbatim>\<open>total_entries\<close> is 0; an empty dictionary never divides.
\<close>

fun breakdown :: "int \<Rightarrow> (string \<times> int) list \<Rightarrow> error + (string \<times> int \<times> real) list" where
  "breakdown n [] = Inr []"
| "breakdown n ((k, c) # rest) =
     (if n = 0 then Inl ZeroDivisionError
      else case breakdown n rest of
             Inl e \<Rightarrow> Inl e
           | Inr ls \<Rightarrow> Inr ((k, c, (real_of_int c / real_of_int n) * 100) # ls))"

definition context_preview :: "string \<Rightarrow> string" where
  "context_preview c = (if length c > 50 then take 50 c @ ''...'' else c)"

definition activity_row :: "SessionEntry \<Rightarrow> report_item" where
  "activity_row e =
     ActivityRow (strftime_HMS (timestamp e)) (operation e) (model e)
       (tokens_input e) (tokens_output e) (entry_total_cost e)
       (context_preview (entry_context e))"

text \<open>The duration the report works with (lines 224 to 226 of the source).\<close>

definition report_end_time :: "SessionSummary \<Rightarrow> datetime" where
  "report_end_time sd = (case end_time sd of Some t \<Rightarrow> t | None \<Rightarrow> start_time sd)"

definition report_duration :: "SessionSummary \<Rightarrow> timedelta" where
  "report_duration sd = datetime_sub (report_end_time sd) (start_time sd)"

text \<open>The four numbers of the cost summary and the cost analysis, as the source writes them.\<close>

definition avg_cost_per_token :: "SessionSummary \<Rightarrow> real" where
  "avg_cost_per_token sd =
     total_cost sd / real_of_int (max 1 (total_tokens_input sd + total_tokens_output sd))"

definition hourly_rate :: "SessionSummary \<Rightarrow> real" where
  "hourly_rate sd = total_cost sd / max (total_seconds (report_duration sd) / 3600) 0.01"

definition output_ratio :: "SessionSummary \<Rightarrow> real" where
  "output_ratio sd =
     real_of_int (total_tokens_output sd) / real_of_int (max (total_tokens_input sd) 1)"

definition tokens_per_minute :: "SessionSummary \<Rightarrow> real" where
  "tokens_per_minute sd =
     real_of_int (total_tokens_input sd + total_tokens_output sd)
       / max (total_seconds (report_duration sd) / 60) 1"

definition insights :: "SessionSummary \<Rightarrow> report_item list" where
  "insights sd =
     (if total_cost sd > 10.0 then [HighCostInsight (total_cost sd)] else [])
     @ (if output_ratio sd < 0.5 then [LowOutputRatioInsight]
        else if output_ratio sd > 2.0 then [HighOutputRatioInsight] else [])
     @ (case map_of (models_used sd) ''claude-opus-4'' of
          Some n \<Rightarrow> if n > 5 then [HeavyOpusInsight] else []
        | None \<Rightarrow> [])"

definition report_content :: "SessionSummary \<Rightarrow> error + report_item list" where
  "report_content sd =
     (let head = [Overview (session_id sd) (session_name sd) (start_time sd)
                     (report_end_time sd) (report_duration sd) (project_path sd)
                     (git_commit_start sd) (git_commit_end sd),
                  CostSummary (total_cost sd) (total_tokens_input sd) (total_tokens_output sd)
                     (total_tokens_input sd + total_tokens_output sd) (avg_cost_per_token sd)]
      in case breakdown (total_entries sd) (operations sd) of
           Inl e \<Rightarrow> Inl e
         | Inr ops \<Rightarrow>
             (case breakdown (total_entries sd) (models_used sd) of
                Inl e \<Rightarrow> Inl e
              | Inr mods \<Rightarrow>
                  Inr (head
                       @ map (\<lambda>(k, c, p). OperationLine k c p) ops
                       @ [ByModelHeading]
                       @ map (\<lambda>(k, c, p). ModelLine k c p) mods
                       @ [ActivityLogHeading]
                       @ map activity_row (entries sd)
                       @ [CostAnalysis (report_duration sd) (total_cost sd) (hourly_rate sd)
                            (output_ratio sd) (tokens_per_minute sd)]
                       @ insights sd
                       @ [SessionNotes (total_cost sd)])))"

definition report_file_name :: "string \<Rightarrow> string" where
  "report_file_name sid = ''session_report_'' @ sid @ ''.md''"

definition generate_markdown_report ::
  "session_dir \<Rightarrow> SessionSummary \<Rightarrow> session_dir \<times> (error + string)" where
  "generate_markdown_report fs sd =
     (case report_content sd of
        Inl e \<Rightarrow> (fs, Inl e)
      | Inr content \<Rightarrow>
          (fs(report_file_name (session_id sd) \<mapsto> Report_md content),
           Inr (report_file_name (session_id sd))))"

subsection \<open>Ending a session\<close>

definition end_session ::
  "session_dir \<Rightarrow> datetime \<Rightarrow> string option \<Rightarrow> bool
     \<Rightarrow> session_dir \<times> message list \<times> (error + string option)" where
  "end_session fs now git generate_report =
     (case fs current_session_file of
        None \<Rightarrow> (fs, [NoActiveSessionEnd], Inr None)
      | Some (Report_md _) \<Rightarrow> (fs, [], Inl JSONDecodeError)
      | Some (Session_json session_data) \<Rightarrow>
          (let sd = session_data\<lparr>end_time := Some now, git_commit_end := git\<rparr>;
               fs1 = fs(session_id sd @ ''.json'' \<mapsto> Session_json sd);
               summary = [SessionEnded (session_name sd), TotalCostLine (total_cost sd),
                          TotalTokensLine (total_tokens_input sd) (total_tokens_output sd)]
           in if generate_report
              then (case generate_markdown_report fs1 sd of
                      (fs2, Inl e) \<Rightarrow> (fs2, [], Inl e)
                    | (fs2, Inr report_file) \<Rightarrow>
                        (fs2(current_session_file := None),
                         summary @ [ReportSaved report_file],
                         Inr (Some report_file)))
              else (fs1(current_session_file := None), summary, Inr None)))"

subsection \<open>Status\<close>

text \<open>\<^verbatim>\<open>str.split(sep)\<close> for a separator of one character.\<close>

fun split_on :: "char \<Rightarrow> string \<Rightarrow> string list" where
  "split_on c [] = [[]]"
| "split_on c (x # xs) =
     (if x = c then [] # split_on c xs
      else (x # hd (split_on c xs)) # tl (split_on c xs))"

text \<open>
  \<^verbatim>\<open>status\<close> only reads the directory: it returns the lines printed and whether it
  raised. \<^verbatim>\<open>split('T')[1]\<close> raises \<^verbatim>\<open>IndexError\<close> when the string holds no \<^verbatim>\<open>T\<close>.
\<close>

definition status :: "session_dir \<Rightarrow> message list \<times> (error + unit)" where
  "status fs =
     (case fs current_session_file of
        None \<Rightarrow> ([NoActiveSessionStatus], Inr ())
      | Some (Report_md _) \<Rightarrow> ([], Inl JSONDecodeError)
      | Some (Session_json session_data) \<Rightarrow>
          (let out = [ActiveSession (session_name session_data),
                      CurrentCost (total_cost session_data),
                      TotalEntries (total_entries session_data),
                      Tokens (total_tokens_input session_data) (total_tokens_output session_data)]
           in if entries session_data \<noteq> []
              then (let last_entry = last (entries session_data)
                    in case split_on CHR ''T'' (isoformat (timestamp last_entry)) of
                         _ # t # _ \<Rightarrow>
                           (out @ [LastActivity (operation last_entry) (take 8 t)], Inr ())
                       | _ \<Rightarrow> (out, Inl IndexError))
              else (out, Inr ())))"

subsection \<open>Sequences of log calls\<close>

record log_call =
  call_time :: datetime
  call_tokens_in :: int
  call_tokens_out :: int
  call_model :: string
  call_operation :: string
  call_context :: string

definition log_call_usage :: "session_dir \<Rightarrow> log_call \<Rightarrow> session_dir \<times> message list \<times> (error + unit)" where
  "log_call_usage fs c =
     log_usage fs (call_time c) (call_tokens_in c) (call_tokens_out c) (call_model c)
       (call_operation c) (call_context c)"

text \<open>The calls run in order; an exception ends the run, as it ends the process.\<close>

fun log_all :: "session_dir \<Rightarrow> log_call list \<Rightarrow> session_dir \<times> message list \<times> (error + unit)" where
  "log_all fs [] = (fs, [], Inr ())"
| "log_all fs (c # cs) =
     (case log_call_usage fs c of
        (fs', out, Inl e) \<Rightarrow> (fs', out, Inl e)
      | (fs', out, Inr _) \<Rightarrow>
          (case log_all fs' cs of (fs'', out', r) \<Rightarrow> (fs'', out @ out', r)))"

section \<open>Specification-level notions\<close>

text \<open>
  The pricing contract in the words of the specification: the entry of an exact match, the
  designated default entry (that of \<^verbatim>\<open>claude-sonnet-4\<close>, 3 and 15 per thousand) otherwise;
  the cost of a number of tokens at a price per thousand.
\<close>

definition priceOf :: "string \<Rightarrow> ModelPricing" where
  "priceOf m =
     (case map_of MODEL_PRICING m of
        Some p \<Rightarrow> p
      | None \<Rightarrow> \<lparr>input_price_per_1k = 3.0, output_price_per_1k = 15.0\<rparr>)"

definition token_cost :: "int \<Rightarrow> real \<Rightarrow> real" where
  "token_cost tokens price_per_thousand = real_of_int tokens / 1000 * price_per_thousand"

text \<open>The number of events that carry a key, and a counter dictionary that agrees with it:
  a key is present exactly when some event carries it, with that number as its count.\<close>

definition count_by :: "(SessionEntry \<Rightarrow> string) \<Rightarrow> string \<Rightarrow> SessionEntry list \<Rightarrow> int" where
  "count_by key k es = int (length (filter (\<lambda>e. key e = k) es))"

definition counts_match ::
  "(SessionEntry \<Rightarrow> string) \<Rightarrow> (string \<times> int) list \<Rightarrow> SessionEntry list \<Rightarrow> bool" where
  "counts_match key d es \<longleftrightarrow>
     (\<forall>k. map_of d k = (if count_by key k es = 0 then None else Some (count_by key k es)))"

definition aggregates_consistent :: "SessionSummary \<Rightarrow> bool" where
  "aggregates_consistent sd \<longleftrightarrow>
     total_entries sd = int (length (entries sd)) \<and>
     total_tokens_input sd = sum_list (map tokens_input (entries sd)) \<and>
     total_tokens_output sd = sum_list (map tokens_output (entries sd)) \<and>
     total_cost sd = sum_list (map entry_total_cost (entries sd)) \<and>
     counts_match operation (operations sd) (entries sd) \<and>
     counts_match model (models_used sd) (entries sd) \<and>
     sum_list (map snd (operations sd)) = total_entries sd \<and>
     sum_list (map snd (models_used sd)) = total_entries sd"

section \<open>What one log call does to an active session\<close>

text \<open>
  Names for the pieces of \<open>log_usage\<close> on its successful path, used to state its effect:
  the warning of the pricing lookup, the entry built, the counter after the increment and
  the session after the update.
\<close>

definition unknown_model_warning :: "string \<Rightarrow> message list" where
  "unknown_model_warning m =
     (if map_of MODEL_PRICING m = None then [UnknownModelWarning m] else [])"

definition new_entry ::
  "datetime \<Rightarrow> int \<Rightarrow> int \<Rightarrow> string \<Rightarrow> string \<Rightarrow> string \<Rightarrow> SessionEntry" where
  "new_entry now tokens_in tokens_out mdl opn ctx =
     \<lparr>timestamp = now, operation = opn, model = mdl,
      tokens_input = tokens_in, tokens_output = tokens_out,
      cost_input = token_cost tokens_in (input_price_per_1k (priceOf mdl)),
      cost_output = token_cost tokens_out (output_price_per_1k (priceOf mdl)),
      entry_total_cost = token_cost tokens_in (input_price_per_1k (priceOf mdl))
                           + token_cost tokens_out (output_price_per_1k (priceOf mdl)),
      entry_context = ctx\<rparr>"

definition call_entry :: "log_call \<Rightarrow> SessionEntry" where
  "call_entry c =
     new_entry (call_time c) (call_tokens_in c) (call_tokens_out c) (call_model c)
       (call_operation c) (call_context c)"

definition incremented :: "string \<Rightarrow> (string \<times> int) list \<Rightarrow> (string \<times> int) list" where
  "incremented k d = AList.update k (case map_of d k of None \<Rightarrow> 1 | Some n \<Rightarrow> n + 1) d"

definition add_entry :: "SessionSummary \<Rightarrow> SessionEntry \<Rightarrow> SessionSummary" where
  "add_entry sd e =
     sd\<lparr>entries := entries sd @ [e],
        total_entries := total_entries sd + 1,
        total_tokens_input := total_tokens_input sd + tokens_input e,
        total_tokens_output := total_tokens_output sd + tokens_output e,
        total_cost := total_cost sd + entry_total_cost e,
        operations := incremented (operation e) (operations sd),
        models_used := incremented (model e) (models_used sd)\<rparr>"

definition fresh_session ::
  "string \<Rightarrow> string \<Rightarrow> datetime \<Rightarrow> string \<Rightarrow> string option \<Rightarrow> SessionSummary" where
  "fresh_session sid name now_start cwd git =
     \<lparr>session_id = sid, session_name = name, start_time = now_start,
      end_time = None, project_path = cwd, git_commit_start = git,
      git_commit_end = None, total_entries = 0, total_tokens_input = 0,
      total_tokens_output = 0, total_cost = 0, operations = [],
      models_used = [], entries = []\<rparr>"

section \<open>Values of the clock\<close>

text \<open>
  The fields of a \<^verbatim>\<open>datetime\<close> object are in range by construction; the record of the
  model is not, so the range is a predicate.
\<close>

definition days_in_month :: "nat \<Rightarrow> nat \<Rightarrow> nat" where
  "days_in_month y m =
     (if m = 2 \<and> is_leap y then 29
      else [31, 28, 31, 30, 31, 30, 31, 31, 30, 31, 30, 31] ! (m - 1))"

definition valid_datetime :: "datetime \<Rightarrow> bool" where
  "valid_datetime d \<longleftrightarrow>
     1 \<le> year d \<and> year d \<le> 9999 \<and> 1 \<le> month d \<and> month d \<le> 12 \<and>
     1 \<le> day d \<and> day d \<le> days_in_month (year d) (month d) \<and>
     hour d < 24 \<and> minute d < 60 \<and> second d < 60 \<and> microsecond d < 1000000"

section \<open>The derived metrics in the words of the specification\<close>

definition averageCostPerToken :: "real \<Rightarrow> int \<Rightarrow> int \<Rightarrow> real" where
  "averageCostPerToken totalCost totalTokensIn totalTokensOut =
     totalCost / real_of_int (max 1 (totalTokensIn + totalTokensOut))"

definition hourlyRate :: "real \<Rightarrow> real \<Rightarrow> real" where
  "hourlyRate totalCost durationSeconds = totalCost / max (durationSeconds / 3600) 0.01"

definition outputToInputRatio :: "int \<Rightarrow> int \<Rightarrow> real" where
  "outputToInputRatio totalTokensOut totalTokensIn =
     real_of_int totalTokensOut / real_of_int (max totalTokensIn 1)"

definition tokensPerMinute :: "int \<Rightarrow> int \<Rightarrow> real \<Rightarrow> real" where
  "tokensPerMinute totalTokensIn totalTokensOut durationSeconds =
     real_of_int (totalTokensIn + totalTokensOut) / max (durationSeconds / 60) 1"

section \<open>Concrete inputs\<close>

definition example_time :: datetime where
  "example_time = \<lparr>year = 2025, month = 3, day = 9, hour = 7, minute = 5, second = 0,
                    microsecond = 0\<rparr>"

definition example_later :: datetime where
  "example_later = \<lparr>year = 2025, month = 3, day = 9, hour = 7, minute = 6, second = 0,
                     microsecond = 0\<rparr>"

definition example_calls :: "log_call list" where
  "example_calls =
     [\<lparr>call_time = example_time, call_tokens_in = 1500, call_tokens_out = 800,
       call_model = ''claude-sonnet-4'', call_operation = ''chat'', call_context = ''x''\<rparr>,
      \<lparr>call_time = example_later, call_tokens_in = 1000, call_tokens_out = 2000,
       call_model = ''claude-opus-4'', call_operation = ''review'', call_context = []\<rparr>]"

definition example_open_session :: SessionSummary where
  "example_open_session = fresh_session ''20250309_070500'' ''demo'' example_time ''/work'' None"

definition example_closed_session :: SessionSummary where
  "example_closed_session =
     (foldl add_entry example_open_session (map call_entry example_calls))
       \<lparr>end_time := Some example_later\<rparr>"

section \<open>Verification\<close>

declare zero_pad.simps [simp del]

subsection \<open>Pricing (C2)\<close>

lemma fallback_entry:
  "map_of MODEL_PRICING ''claude-sonnet-4''
     = Some \<lparr>input_price_per_1k = 3.0, output_price_per_1k = 15.0\<rparr>"
  by (simp add: MODEL_PRICING_def)

lemma calculate_cost_eq:
  "calculate_cost mdl tin tout =
     (unknown_model_warning mdl,
      Inr (token_cost tin (input_price_per_1k (priceOf mdl)),
           token_cost tout (output_price_per_1k (priceOf mdl)),
           token_cost tin (input_price_per_1k (priceOf mdl))
             + token_cost tout (output_price_per_1k (priceOf mdl))))"
proof (cases "map_of MODEL_PRICING mdl")
  case None
  then show ?thesis
    by (simp add: calculate_cost_def priceOf_def fallback_entry unknown_model_warning_def
        token_cost_def Let_def)
next
  case (Some p)
  then show ?thesis
    by (simp add: calculate_cost_def priceOf_def unknown_model_warning_def token_cost_def Let_def)
qed

text \<open>
  C2. Every cost computation returns the three costs \<open>tokens / 1000 * price\<close> for input
  and output and their sum, at the prices of the model's entry; an identifier without
  entry is priced with the entry of \<^verbatim>\<open>claude-sonnet-4\<close> and the warning is printed; the
  lookup raises for no model string (the result is never \<open>Inl\<close>).
\<close>

theorem calculate_cost_priced:
  "calculate_cost mdl tokens_in tokens_out =
     ((if map_of MODEL_PRICING mdl = None then [UnknownModelWarning mdl] else []),
      Inr (token_cost tokens_in (input_price_per_1k (priceOf mdl)),
           token_cost tokens_out (output_price_per_1k (priceOf mdl)),
           token_cost tokens_in (input_price_per_1k (priceOf mdl))
             + token_cost tokens_out (output_price_per_1k (priceOf mdl))))
   \<and> (map_of MODEL_PRICING mdl = None \<longrightarrow>
        Some (priceOf mdl) = map_of MODEL_PRICING ''claude-sonnet-4'')
   \<and> (\<forall>p. map_of MODEL_PRICING mdl = Some p \<longrightarrow> priceOf mdl = p)"
proof -
  have costs: "calculate_cost mdl tokens_in tokens_out =
     ((if map_of MODEL_PRICING mdl = None then [UnknownModelWarning mdl] else []),
      Inr (token_cost tokens_in (input_price_per_1k (priceOf mdl)),
           token_cost tokens_out (output_price_per_1k (priceOf mdl)),
           token_cost tokens_in (input_price_per_1k (priceOf mdl))
             + token_cost tokens_out (output_price_per_1k (priceOf mdl))))"
    by (simp add: calculate_cost_eq unknown_model_warning_def)
  have fallback: "map_of MODEL_PRICING mdl = None \<longrightarrow>
        Some (priceOf mdl) = map_of MODEL_PRICING ''claude-sonnet-4''"
    by (simp add: priceOf_def fallback_entry)
  have exact: "\<forall>p. map_of MODEL_PRICING mdl = Some p \<longrightarrow> priceOf mdl = p"
    by (simp add: priceOf_def)
  from costs fallback exact show ?thesis
    by (intro conjI)
qed

theorem calculate_cost_priced_witness:
  "map_of MODEL_PRICING ''gpt-5'' = None
   \<and> calculate_cost ''gpt-5'' 1500 800 = ([UnknownModelWarning ''gpt-5''], Inr (4.5, 12, 16.5))
   \<and> map_of MODEL_PRICING ''claude-opus-4''
        = Some \<lparr>input_price_per_1k = 15, output_price_per_1k = 75\<rparr>
   \<and> calculate_cost ''claude-opus-4'' 1000 2000 = ([], Inr (15, 150, 165))"
proof -
  have unknown: "map_of MODEL_PRICING ''gpt-5'' = None"
    by (simp add: MODEL_PRICING_def)
  have known: "map_of MODEL_PRICING ''claude-opus-4''
                 = Some \<lparr>input_price_per_1k = 15, output_price_per_1k = 75\<rparr>"
    by (simp add: MODEL_PRICING_def)
  show ?thesis
    using calculate_cost_priced [of "''gpt-5''" 1500 800]
      calculate_cost_priced [of "''claude-opus-4''" 1000 2000] unknown known
    by (simp add: priceOf_def token_cost_def)
qed

subsection \<open>One log call, and many\<close>

lemma incr_count_eq: "incr_count k d = Inr (incremented k d)"
  by (cases "map_of d k") (simp_all add: incr_count_def incremented_def AList.update_conv')

lemma log_usage_active:
  assumes "fs current_session_file = Some (Session_json sd)"
  shows "log_usage fs now tin tout mdl opn ctx =
           (fs(current_session_file \<mapsto> Session_json (add_entry sd (new_entry now tin tout mdl opn ctx))),
            unknown_model_warning mdl
              @ [Logged tin tout (entry_total_cost (new_entry now tin tout mdl opn ctx)) mdl]
              @ (if ctx \<noteq> [] then [ContextLine ctx] else []),
            Inr ())"
  using assms
  by (simp add: log_usage_def calculate_cost_eq incr_count_eq add_entry_def new_entry_def Let_def)

lemma sum_snd_update:
  "sum_list (map snd (AList.update k v d)) =
     sum_list (map snd d) - (case map_of d k of None \<Rightarrow> 0 | Some n \<Rightarrow> n) + (v::int)"
  by (induction d) auto

lemma sum_snd_incremented: "sum_list (map snd (incremented k d)) = sum_list (map snd d) + 1"
  by (cases "map_of d k") (simp_all add: incremented_def sum_snd_update)

lemma count_by_snoc:
  "count_by key k (es @ [e]) = count_by key k es + (if key e = k then 1 else 0)"
  by (simp add: count_by_def)

lemma count_by_nonneg: "0 \<le> count_by key k es"
  by (simp add: count_by_def)

lemma counts_match_incremented:
  assumes "counts_match key d es"
  shows "counts_match key (incremented (key e) d) (es @ [e])"
  unfolding counts_match_def
proof
  fix k
  have d: "map_of d k' = (if count_by key k' es = 0 then None else Some (count_by key k' es))" for k'
    using assms by (simp add: counts_match_def)
  have nn: "0 \<le> count_by key k es" by (rule count_by_nonneg)
  show "map_of (incremented (key e) d) k =
          (if count_by key k (es @ [e]) = 0 then None else Some (count_by key k (es @ [e])))"
  proof (cases "key e = k")
    case True
    with nn show ?thesis
      by (simp add: incremented_def AList.update_conv' count_by_snoc d)
  next
    case False
    then show ?thesis
      by (simp add: incremented_def AList.update_conv' count_by_snoc d)
  qed
qed

lemma add_entry_consistent:
  assumes "aggregates_consistent sd"
  shows "aggregates_consistent (add_entry sd e)"
  using assms
  by (simp add: aggregates_consistent_def add_entry_def counts_match_incremented sum_snd_incremented)

lemma entries_add_entry: "entries (add_entry sd e) = entries sd @ [e]"
  by (simp add: add_entry_def)

lemma foldl_add_entry_consistent:
  "aggregates_consistent sd \<Longrightarrow> aggregates_consistent (foldl add_entry sd es)"
  by (induction es arbitrary: sd) (simp_all add: add_entry_consistent)

lemma entries_foldl_add_entry: "entries (foldl add_entry sd es) = entries sd @ es"
  by (induction es arbitrary: sd) (simp_all add: entries_add_entry)

lemma header_add_entry:
  "session_id (add_entry sd e) = session_id sd"
  "session_name (add_entry sd e) = session_name sd"
  "start_time (add_entry sd e) = start_time sd"
  "end_time (add_entry sd e) = end_time sd"
  by (simp_all add: add_entry_def)

lemma header_foldl_add_entry:
  "session_id (foldl add_entry sd es) = session_id sd"
  "session_name (foldl add_entry sd es) = session_name sd"
  "start_time (foldl add_entry sd es) = start_time sd"
  "end_time (foldl add_entry sd es) = end_time sd"
  by (induction es arbitrary: sd) (simp_all add: header_add_entry)

lemma log_all_active:
  assumes "fs current_session_file = Some (Session_json sd)"
  shows "\<exists>out. log_all fs calls =
           (fs(current_session_file \<mapsto> Session_json (foldl add_entry sd (map call_entry calls))),
            out, Inr ())"
  using assms
proof (induction calls arbitrary: fs sd)
  case Nil
  then have "fs(current_session_file \<mapsto> Session_json sd) = fs"
    by (simp add: fun_upd_idem)
  then show ?case by simp
next
  case (Cons c cs)
  let ?sd = "add_entry sd (call_entry c)"
  let ?fs = "fs(current_session_file \<mapsto> Session_json ?sd)"
  obtain out1 where step: "log_call_usage fs c = (?fs, out1, Inr ())"
    using log_usage_active [where fs = fs and sd = sd, OF Cons.prems] by (simp add: log_call_usage_def call_entry_def)
  have "?fs current_session_file = Some (Session_json ?sd)" by simp
  from Cons.IH [where fs = "?fs" and sd = "?sd", OF this] obtain out2 where
    rest: "log_all ?fs cs =
             (?fs(current_session_file \<mapsto> Session_json (foldl add_entry ?sd (map call_entry cs))),
              out2, Inr ())" by blast
  show ?case using step rest by (simp add: fun_eq_iff)
qed

lemma start_session_eq:
  "start_session fs now_id now_start cwd git name ctx =
     (fs(current_session_file \<mapsto> Session_json
          \<lparr>session_id = strftime_id now_id, session_name = name, start_time = now_start,
           end_time = None, project_path = cwd, git_commit_start = git,
           git_commit_end = None, total_entries = 0, total_tokens_input = 0,
           total_tokens_output = 0, total_cost = 0, operations = [],
           models_used = [], entries = []\<rparr>),
      Started name (strftime_id now_id) # (if ctx \<noteq> [] then [ContextLine ctx] else []),
      strftime_id now_id)"
  by (simp add: start_session_def Let_def)

lemma fresh_consistent: "aggregates_consistent (fresh_session sid name t cwd git)"
  by (simp add: aggregates_consistent_def fresh_session_def counts_match_def count_by_def)

subsection \<open>Aggregates (C1)\<close>

lemma example_entries_eval:
  "map entry_total_cost (map call_entry example_calls) = [16.5, 165]"
  "map tokens_input (map call_entry example_calls) = [1500, 1000]"
  "map tokens_output (map call_entry example_calls) = [800, 2000]"
  "map operation (map call_entry example_calls) = [''chat'', ''review'']"
  "map model (map call_entry example_calls) = [''claude-sonnet-4'', ''claude-opus-4'']"
  by (simp_all add: example_calls_def call_entry_def new_entry_def token_cost_def priceOf_def
      MODEL_PRICING_def)

text \<open>
  C1. After \<open>start_session\<close> and any sequence of log calls, no call has raised and the
  active session holds one event per call, in order; its \<open>total_cost\<close>,
  \<open>total_tokens_input\<close> and \<open>total_tokens_output\<close> are the sums of the events' fields,
  \<open>total_entries\<close> is the number of events, each counter dictionary maps a key to the
  number of events that carry it (and holds no other key), and the values of
  \<open>operations\<close> add up to \<open>total_entries\<close>.
\<close>

theorem log_all_aggregates:
  assumes start: "start_session fs0 now_id now_start cwd git name ctx = (fs1, out1, sid)"
    and logs: "log_all fs1 calls = (fs2, out2, r)"
  shows "r = Inr () \<and>
         (\<exists>sd. fs2 current_session_file = Some (Session_json sd) \<and>
            entries sd = map call_entry calls \<and>
            total_cost sd = sum_list (map entry_total_cost (entries sd)) \<and>
            total_tokens_input sd = sum_list (map tokens_input (entries sd)) \<and>
            total_tokens_output sd = sum_list (map tokens_output (entries sd)) \<and>
            total_entries sd = int (length (entries sd)) \<and>
            (\<forall>k. map_of (operations sd) k =
                   (if count_by operation k (entries sd) = 0 then None
                    else Some (count_by operation k (entries sd)))) \<and>
            (\<forall>k. map_of (models_used sd) k =
                   (if count_by model k (entries sd) = 0 then None
                    else Some (count_by model k (entries sd)))) \<and>
            sum_list (map snd (operations sd)) = total_entries sd)"
proof -
  let ?fresh = "fresh_session sid name now_start cwd git"
  let ?sd = "foldl add_entry ?fresh (map call_entry calls)"
  from start have fs1: "fs1 current_session_file = Some (Session_json ?fresh)"
    by (auto simp: start_session_eq fresh_session_def)
  from log_all_active [where fs = fs1 and sd = "?fresh" and calls = calls, OF fs1] logs
  have r: "r = Inr ()" and fs2: "fs2 current_session_file = Some (Session_json ?sd)"
    by auto
  have cons: "aggregates_consistent ?sd"
    by (rule foldl_add_entry_consistent) (rule fresh_consistent)
  have ents: "entries ?sd = map call_entry calls"
    by (simp add: entries_foldl_add_entry fresh_session_def)
  from cons have "total_cost ?sd = sum_list (map entry_total_cost (entries ?sd))"
    and "total_tokens_input ?sd = sum_list (map tokens_input (entries ?sd))"
    and "total_tokens_output ?sd = sum_list (map tokens_output (entries ?sd))"
    and "total_entries ?sd = int (length (entries ?sd))"
    and "counts_match operation (operations ?sd) (entries ?sd)"
    and "counts_match model (models_used ?sd) (entries ?sd)"
    and "sum_list (map snd (operations ?sd)) = total_entries ?sd"
    by (simp_all add: aggregates_consistent_def)
  with r fs2 ents show ?thesis
    unfolding counts_match_def by blast
qed

theorem log_all_aggregates_witness:
  "\<exists>fs1 out1 sid fs2 out2 sd.
     start_session Map.empty example_time example_time ''/work'' None ''demo'' [] = (fs1, out1, sid)
     \<and> log_all fs1 example_calls = (fs2, out2, Inr ())
     \<and> fs2 current_session_file = Some (Session_json sd)
     \<and> total_cost sd = 181.5 \<and> total_tokens_input sd = 2500 \<and> total_tokens_output sd = 2800
     \<and> total_entries sd = 2
     \<and> map_of (operations sd) ''chat'' = Some 1 \<and> map_of (operations sd) ''review'' = Some 1
     \<and> map_of (operations sd) ''debug'' = None
     \<and> map_of (models_used sd) ''claude-opus-4'' = Some 1
     \<and> sum_list (map snd (operations sd)) = 2"
proof -
  obtain fs1 out1 sid where
    h1: "start_session Map.empty example_time example_time ''/work'' None ''demo'' [] = (fs1, out1, sid)"
    by (rule prod_cases3)
  obtain fs2 out2 r where h2: "log_all fs1 example_calls = (fs2, out2, r)"
    by (rule prod_cases3)
  from log_all_aggregates [OF h1 h2] obtain sd where
    r: "r = Inr ()" and cur: "fs2 current_session_file = Some (Session_json sd)"
    and ents: "entries sd = map call_entry example_calls"
    and sums: "total_cost sd = sum_list (map entry_total_cost (entries sd))"
      "total_tokens_input sd = sum_list (map tokens_input (entries sd))"
      "total_tokens_output sd = sum_list (map tokens_output (entries sd))"
      "total_entries sd = int (length (entries sd))"
    and ops: "\<And>k. map_of (operations sd) k =
                   (if count_by operation k (entries sd) = 0 then None
                    else Some (count_by operation k (entries sd)))"
    and mods: "\<And>k. map_of (models_used sd) k =
                   (if count_by model k (entries sd) = 0 then None
                    else Some (count_by model k (entries sd)))"
    and total: "sum_list (map snd (operations sd)) = total_entries sd"
    by blast
  have "total_cost sd = 181.5" "total_tokens_input sd = 2500" "total_tokens_output sd = 2800"
    using sums(1-3) unfolding ents example_entries_eval by simp_all
  moreover have "total_entries sd = 2"
    using sums(4) unfolding ents by (simp add: example_calls_def)
  moreover have "map_of (operations sd) ''chat'' = Some 1"
    "map_of (operations sd) ''review'' = Some 1" "map_of (operations sd) ''debug'' = None"
    by (simp_all add: ops ents count_by_def example_calls_def call_entry_def new_entry_def)
  moreover have "map_of (models_used sd) ''claude-opus-4'' = Some 1"
    by (simp add: mods ents count_by_def example_calls_def call_entry_def new_entry_def)
  ultimately show ?thesis
    using h1 h2 r cur total by auto
qed

subsection \<open>Status (C10)\<close>

lemma digit_char_cases:
  "digit_char n \<in> set ''0123456789''"
  unfolding digit_char_def by (rule nth_mem) simp

lemma digit_char_not_T: "digit_char n \<noteq> CHR ''T''" "CHR ''T'' \<noteq> digit_char n"
  using digit_char_cases [of n] by auto

lemma zero_pad_no_T: "CHR ''T'' \<notin> set (zero_pad w n)"
proof (induction w n rule: zero_pad.induct)
  case (1 n)
  then show ?case
    by (subst zero_pad.simps) (simp add: digit_char_not_T)
next
  case (2 w n)
  then show ?case
    by (subst zero_pad.simps) (simp add: digit_char_not_T)
qed

lemma length_zero_pad_2: "n < 100 \<Longrightarrow> length (zero_pad 2 n) = 2"
  by (simp add: numeral_2_eq_2 zero_pad.simps)

lemma length_strftime_HMS:
  "hour d < 24 \<Longrightarrow> minute d < 60 \<Longrightarrow> second d < 60 \<Longrightarrow> length (strftime_HMS d) = 8"
  by (simp add: strftime_HMS_def length_zero_pad_2)

lemma split_on_no_sep: "c \<notin> set a \<Longrightarrow> split_on c a = [a]"
  by (induction a) auto

lemma split_on_first: "c \<notin> set a \<Longrightarrow> split_on c (a @ c # b) = a # split_on c b"
  by (induction a) auto

lemma split_isoformat:
  "split_on CHR ''T'' (isoformat d) =
     [strftime_Ymd d,
      strftime_HMS d @ (if microsecond d \<noteq> 0 then ''.'' @ zero_pad 6 (microsecond d) else [])]"
proof -
  have a: "CHR ''T'' \<notin> set (strftime_Ymd d)"
    by (simp add: strftime_Ymd_def zero_pad_no_T)
  have b: "CHR ''T'' \<notin> set (strftime_HMS d @ (if microsecond d \<noteq> 0 then ''.'' @ zero_pad 6 (microsecond d) else []))"
    by (simp add: strftime_HMS_def zero_pad_no_T)
  have "isoformat d = strftime_Ymd d @ CHR ''T'' # (strftime_HMS d @ (if microsecond d \<noteq> 0 then ''.'' @ zero_pad 6 (microsecond d) else []))"
    by (simp add: isoformat_def)
  then show ?thesis
    using split_on_first [OF a] split_on_no_sep [OF b] by simp
qed

text \<open>
  C10. With an active session, \<open>status\<close> does not raise and prints the session name, the
  current cost, the number of entries and the token totals; with no event it prints
  nothing else, with events it adds one line with the operation and the time of day
  (\<^verbatim>\<open>HH:MM:SS\<close>) of the last event of the sequence.
\<close>

theorem status_active:
  assumes "fs current_session_file = Some (Session_json sd)"
    and "entries sd \<noteq> [] \<longrightarrow> valid_datetime (timestamp (last (entries sd)))"
  shows "status fs =
           ([ActiveSession (session_name sd), CurrentCost (total_cost sd),
             TotalEntries (total_entries sd),
             Tokens (total_tokens_input sd) (total_tokens_output sd)]
            @ (if entries sd = [] then []
               else [LastActivity (operation (last (entries sd)))
                       (strftime_HMS (timestamp (last (entries sd))))]),
            Inr ())"
proof (cases "entries sd = []")
  case True
  with assms(1) show ?thesis by (simp add: status_def)
next
  case False
  with assms(2) have "length (strftime_HMS (timestamp (last (entries sd)))) = 8"
    by (simp add: valid_datetime_def length_strftime_HMS)
  with False assms(1) show ?thesis
    by (simp add: status_def split_isoformat Let_def)
qed

theorem status_active_witness:
  "status (Map.empty(current_session_file \<mapsto> Session_json example_open_session))
     = ([ActiveSession ''demo'', CurrentCost 0, TotalEntries 0, Tokens 0 0], Inr ())
   \<and> valid_datetime example_later
   \<and> status (Map.empty(current_session_file \<mapsto>
                 Session_json (foldl add_entry example_open_session (map call_entry example_calls))))
     = ([ActiveSession ''demo'', CurrentCost 181.5, TotalEntries 2, Tokens 2500 2800,
         LastActivity ''review'' ''07:06:00''], Inr ())"
proof -
  let ?fs0 = "Map.empty(current_session_file \<mapsto> Session_json example_open_session)"
  let ?sd = "foldl add_entry example_open_session (map call_entry example_calls)"
  let ?fs2 = "Map.empty(current_session_file \<mapsto> Session_json ?sd)"
  have v: "valid_datetime example_later"
    by (simp add: valid_datetime_def example_later_def days_in_month_def)
  have e0: "entries example_open_session = []"
    by (simp add: example_open_session_def fresh_session_def)
  have e2: "entries ?sd = map call_entry example_calls"
    by (simp add: entries_foldl_add_entry e0)
  have l: "last (entries ?sd) = call_entry (last example_calls)"
    unfolding e2 by (simp add: example_calls_def)
  have "status ?fs0 =
          ([ActiveSession (session_name example_open_session),
            CurrentCost (total_cost example_open_session),
            TotalEntries (total_entries example_open_session),
            Tokens (total_tokens_input example_open_session)
              (total_tokens_output example_open_session)], Inr ())"
    using status_active [where fs = "?fs0" and sd = example_open_session] e0 by simp
  then have a: "status ?fs0 = ([ActiveSession ''demo'', CurrentCost 0, TotalEntries 0, Tokens 0 0], Inr ())"
    by (simp add: example_open_session_def fresh_session_def)
  have vl: "valid_datetime (timestamp (last (entries ?sd)))"
    unfolding l using v by (simp add: example_calls_def call_entry_def new_entry_def)
  have ne: "entries ?sd \<noteq> []"
    unfolding e2 by (simp add: example_calls_def)
  have "status ?fs2 =
          ([ActiveSession (session_name ?sd), CurrentCost (total_cost ?sd),
            TotalEntries (total_entries ?sd),
            Tokens (total_tokens_input ?sd) (total_tokens_output ?sd),
            LastActivity (operation (last (entries ?sd)))
              (strftime_HMS (timestamp (last (entries ?sd))))], Inr ())"
    using status_active [where fs = "?fs2" and sd = "?sd"] vl ne by simp
  moreover have "operation (last (entries ?sd)) = ''review''"
    "strftime_HMS (timestamp (last (entries ?sd))) = ''07:06:00''"
    unfolding l
    by (simp_all add: example_calls_def call_entry_def new_entry_def strftime_HMS_def
        example_later_def zero_pad.simps numeral_2_eq_2 digit_char_def)
  moreover have "session_name ?sd = ''demo''" "total_cost ?sd = 181.5" "total_entries ?sd = 2"
    "total_tokens_input ?sd = 2500" "total_tokens_output ?sd = 2800"
    by (simp_all add: example_calls_def call_entry_def new_entry_def add_entry_def
        example_open_session_def fresh_session_def token_cost_def priceOf_def MODEL_PRICING_def)
  ultimately show ?thesis using a v by simp
qed

subsection \<open>Evaluating the padded numbers\<close>

lemma zero_pad_0_0: "zero_pad 0 0 = []"
  by (simp add: zero_pad.simps)

lemma zero_pad_Suc2: "zero_pad (Suc (Suc 0)) n = zero_pad 0 (n div 100) @ [digit_char (n div 10), digit_char n]"
  by (simp add: zero_pad.simps(2) div_mult2_eq [symmetric])

lemma zero_pad_2: "zero_pad 2 n = zero_pad 0 (n div 100) @ [digit_char (n div 10), digit_char n]"
  using zero_pad_Suc2 [of n] by (simp add: numeral_2_eq_2)

lemma zero_pad_4:
  "zero_pad 4 n = zero_pad 0 (n div 10000)
     @ [digit_char (n div 1000), digit_char (n div 100), digit_char (n div 10), digit_char n]"
proof -
  have four: "(4::nat) = Suc (Suc (Suc (Suc 0)))" by simp
  show ?thesis
    unfolding four by (simp add: zero_pad.simps(2) div_mult2_eq [symmetric])
qed

lemma strftime_id_example_later: "strftime_id example_later = ''20250309_070600''"
  by (simp add: strftime_id_def example_later_def zero_pad_2 zero_pad_4 zero_pad_0_0 digit_char_def)

lemma strftime_id_example_time: "strftime_id example_time = ''20250309_070500''"
  by (simp add: strftime_id_def example_time_def zero_pad_2 zero_pad_4 zero_pad_0_0 digit_char_def)

subsection \<open>No active session (C3)\<close>

lemma end_session_active_output:
  assumes "fs current_session_file = Some (Session_json sd)"
  shows "NoActiveSessionEnd \<notin> set (fst (snd (end_session fs now git gen)))"
  using assms
  by (simp add: end_session_def generate_markdown_report_def Let_def split: sum.splits)

lemma log_usage_active_output:
  assumes "fs current_session_file = Some (Session_json sd)"
  shows "NoActiveSessionLog \<notin> set (fst (snd (log_usage fs now tin tout mdl opn ctx)))"
  using log_usage_active [where fs = fs and sd = sd, OF assms]
  by (simp add: unknown_model_warning_def)

lemma status_active_output:
  assumes "fs current_session_file = Some (Session_json sd)"
  shows "NoActiveSessionStatus \<notin> set (fst (status fs))"
  using assms
  by (simp add: status_def Let_def split_isoformat)

text \<open>
  C3. With no file \<^verbatim>\<open>current_session.json\<close>, \<open>log_usage\<close> and \<open>end_session\<close> return the
  directory unchanged and print their "no active session" line only, \<open>end_session\<close>
  returns \<^verbatim>\<open>None\<close>, and \<open>status\<close>, which never writes, prints its own. The three lines
  are distinguishable: with an active session none of them is printed.
\<close>

theorem no_session_no_mutation:
  assumes "fs current_session_file = None"
  shows "log_usage fs now tokens_in tokens_out mdl opn ctx = (fs, [NoActiveSessionLog], Inr ())
       \<and> end_session fs now git generate_report = (fs, [NoActiveSessionEnd], Inr None)
       \<and> status fs = ([NoActiveSessionStatus], Inr ())
       \<and> (\<forall>fs' sd. fs' current_session_file = Some (Session_json sd) \<longrightarrow>
             NoActiveSessionLog \<notin> set (fst (snd (log_usage fs' now tokens_in tokens_out mdl opn ctx)))
           \<and> NoActiveSessionEnd \<notin> set (fst (snd (end_session fs' now git generate_report)))
           \<and> NoActiveSessionStatus \<notin> set (fst (status fs')))"
proof -
  have "log_usage fs now tokens_in tokens_out mdl opn ctx = (fs, [NoActiveSessionLog], Inr ())"
    using assms by (simp add: log_usage_def)
  moreover have "end_session fs now git generate_report = (fs, [NoActiveSessionEnd], Inr None)"
    using assms by (simp add: end_session_def)
  moreover have "status fs = ([NoActiveSessionStatus], Inr ())"
    using assms by (simp add: status_def)
  ultimately show ?thesis
    using log_usage_active_output end_session_active_output status_active_output
    by blast
qed

theorem no_session_no_mutation_witness:
  "(Map.empty :: session_dir) current_session_file = None
   \<and> log_usage Map.empty example_time 1500 800 ''claude-sonnet-4'' ''chat'' ''x''
       = (Map.empty, [NoActiveSessionLog], Inr ())
   \<and> end_session Map.empty example_time None True = (Map.empty, [NoActiveSessionEnd], Inr None)
   \<and> status Map.empty = ([NoActiveSessionStatus], Inr ())"
proof -
  have h: "(Map.empty :: session_dir) current_session_file = None" by simp
  show ?thesis
    using no_session_no_mutation [OF h, of example_time 1500 800 "''claude-sonnet-4''" "''chat''" "''x''" None True]
    by simp
qed

subsection \<open>Starting over an active session (C9)\<close>

text \<open>
  C9. \<open>start_session\<close> over an active session replaces the file of the active session by
  a fresh session (no entries, zero totals, empty counters) and writes no other file, so
  the entries and totals of the prior session are kept nowhere; it prints the start
  confirmation only, and the whole result is what starting with no active session gives.
\<close>

theorem start_session_overwrites:
  assumes "fs current_session_file = Some (Session_json old)"
    and "start_session fs now_id now_start cwd git name ctx = (fs', out, sid)"
  shows "(\<exists>sd. fs' current_session_file = Some (Session_json sd)
            \<and> session_id sd = sid \<and> session_name sd = name \<and> start_time sd = now_start
            \<and> end_time sd = None
            \<and> entries sd = [] \<and> total_entries sd = 0 \<and> total_tokens_input sd = 0
            \<and> total_tokens_output sd = 0 \<and> total_cost sd = 0
            \<and> operations sd = [] \<and> models_used sd = [])
       \<and> (\<forall>f. f \<noteq> current_session_file \<longrightarrow> fs' f = fs f)
       \<and> out = Started name sid # (if ctx \<noteq> [] then [ContextLine ctx] else [])
       \<and> start_session (fs(current_session_file := None)) now_id now_start cwd git name ctx
            = (fs', out, sid)"
  using assms(2) by (auto simp: start_session_eq)

theorem start_session_overwrites_witness:
  "\<exists>fs out.
     fs current_session_file
       = Some (Session_json (foldl add_entry example_open_session (map call_entry example_calls)))
     \<and> start_session fs example_later example_later ''/work'' None ''again'' [] =
          (fs(current_session_file \<mapsto>
              Session_json (fresh_session ''20250309_070600'' ''again'' example_later ''/work'' None)),
           [Started ''again'' ''20250309_070600''], ''20250309_070600'')
     \<and> (\<forall>f. f \<noteq> current_session_file \<longrightarrow>
           (fs(current_session_file \<mapsto>
              Session_json (fresh_session ''20250309_070600'' ''again'' example_later ''/work'' None))) f
            = fs f)"
proof -
  let ?old = "foldl add_entry example_open_session (map call_entry example_calls)"
  let ?fs = "Map.empty(current_session_file \<mapsto> Session_json ?old)"
  have h1: "?fs current_session_file = Some (Session_json ?old)" by simp
  note sid = strftime_id_example_later
  have h2: "start_session ?fs example_later example_later ''/work'' None ''again'' [] =
              (?fs(current_session_file \<mapsto>
                 Session_json (fresh_session ''20250309_070600'' ''again'' example_later ''/work'' None)),
               [Started ''again'' ''20250309_070600''], ''20250309_070600'')"
    by (simp add: start_session_eq sid fresh_session_def)
  from start_session_overwrites [where fs = "?fs" and old = "?old", OF h1 h2]
  have "\<forall>f. f \<noteq> current_session_file \<longrightarrow>
           (?fs(current_session_file \<mapsto>
              Session_json (fresh_session ''20250309_070600'' ''again'' example_later ''/work'' None))) f
            = ?fs f"
    by blast
  with h1 h2 show ?thesis by blast
qed

subsection \<open>Duration of an open session (C7)\<close>

lemma datetime_sub_self: "datetime_sub a a = 0"
  by (simp add: datetime_sub_def)

text \<open>
  C7 claims that for a session without end time the report takes the current time for the
  end. The report generator does not read the clock: a session started at 07:05:00 and
  rendered at 07:06:00 has duration 0 in the report, not 60 seconds.
\<close>

theorem report_duration_open_counterexample:
  "end_time example_open_session = None
   \<and> datetime_sub example_later (start_time example_open_session) = 60000000
   \<and> report_duration example_open_session
        \<noteq> datetime_sub example_later (start_time example_open_session)"
  by (simp add: example_open_session_def fresh_session_def report_duration_def
      report_end_time_def datetime_sub_def example_later_def example_time_def toordinal_def)

text \<open>
  C7, amended. When the report generator renders a session whose end time is absent, the
  start time stands in for the end time, so the duration is zero.
\<close>

theorem report_duration_open:
  assumes "end_time sd = None"
  shows "report_end_time sd = start_time sd \<and> report_duration sd = 0
         \<and> total_seconds (report_duration sd) = 0"
  using assms
  by (simp add: report_end_time_def report_duration_def datetime_sub_self total_seconds_def)

theorem report_duration_open_witness:
  "end_time example_open_session = None
   \<and> report_end_time example_open_session = example_time
   \<and> report_duration example_open_session = 0"
proof -
  have h: "end_time example_open_session = None"
    by (simp add: example_open_session_def fresh_session_def)
  from report_duration_open [OF h] h show ?thesis
    by (simp add: example_open_session_def fresh_session_def)
qed

subsection \<open>Derived metrics (C8)\<close>

lemma report_content_items:
  assumes "report_content sd = Inr items"
  shows "CostSummary (total_cost sd) (total_tokens_input sd) (total_tokens_output sd)
           (total_tokens_input sd + total_tokens_output sd) (avg_cost_per_token sd) \<in> set items"
    and "CostAnalysis (report_duration sd) (total_cost sd) (hourly_rate sd) (output_ratio sd)
           (tokens_per_minute sd) \<in> set items"
    and "set (insights sd) \<subseteq> set items"
  using assms
  by (auto simp: report_content_def Let_def split: sum.splits)

text \<open>
  C8. For every session the four derived numbers of the report are the formulas of the
  specification at the session's totals and at the duration of the report in seconds
  (for a session with an end time, the end time minus the start time); whenever the
  report is rendered, its cost summary and its cost analysis carry these numbers.
\<close>

theorem derived_metrics:
  "avg_cost_per_token sd
     = averageCostPerToken (total_cost sd) (total_tokens_input sd) (total_tokens_output sd)
   \<and> hourly_rate sd = hourlyRate (total_cost sd) (total_seconds (report_duration sd))
   \<and> output_ratio sd = outputToInputRatio (total_tokens_output sd) (total_tokens_input sd)
   \<and> tokens_per_minute sd
       = tokensPerMinute (total_tokens_input sd) (total_tokens_output sd)
           (total_seconds (report_duration sd))
   \<and> (\<forall>t. end_time sd = Some t \<longrightarrow> report_duration sd = datetime_sub t (start_time sd))
   \<and> (\<forall>items. report_content sd = Inr items \<longrightarrow>
         CostSummary (total_cost sd) (total_tokens_input sd) (total_tokens_output sd)
           (total_tokens_input sd + total_tokens_output sd)
           (averageCostPerToken (total_cost sd) (total_tokens_input sd) (total_tokens_output sd))
           \<in> set items
       \<and> CostAnalysis (report_duration sd) (total_cost sd)
           (hourlyRate (total_cost sd) (total_seconds (report_duration sd)))
           (outputToInputRatio (total_tokens_output sd) (total_tokens_input sd))
           (tokensPerMinute (total_tokens_input sd) (total_tokens_output sd)
              (total_seconds (report_duration sd)))
           \<in> set items)"
proof -
  have a: "avg_cost_per_token sd
     = averageCostPerToken (total_cost sd) (total_tokens_input sd) (total_tokens_output sd)"
    by (simp add: avg_cost_per_token_def averageCostPerToken_def)
  have h: "hourly_rate sd = hourlyRate (total_cost sd) (total_seconds (report_duration sd))"
    by (simp add: hourly_rate_def hourlyRate_def)
  have r: "output_ratio sd = outputToInputRatio (total_tokens_output sd) (total_tokens_input sd)"
    by (simp add: output_ratio_def outputToInputRatio_def)
  have t: "tokens_per_minute sd
       = tokensPerMinute (total_tokens_input sd) (total_tokens_output sd)
           (total_seconds (report_duration sd))"
    by (simp add: tokens_per_minute_def tokensPerMinute_def)
  have d: "\<forall>t. end_time sd = Some t \<longrightarrow> report_duration sd = datetime_sub t (start_time sd)"
    by (simp add: report_duration_def report_end_time_def)
  show ?thesis
    using a h r t d report_content_items(1,2) [of sd] by metis
qed

lemma example_closed_fields:
  "total_cost example_closed_session = 181.5"
  "total_tokens_input example_closed_session = 2500"
  "total_tokens_output example_closed_session = 2800"
  "total_entries example_closed_session = 2"
  "operations example_closed_session = [(''chat'', 1), (''review'', 1)]"
  "models_used example_closed_session = [(''claude-sonnet-4'', 1), (''claude-opus-4'', 1)]"
  "start_time example_closed_session = example_time"
  "end_time example_closed_session = Some example_later"
  by (simp_all add: example_closed_session_def example_calls_def call_entry_def new_entry_def
      add_entry_def incremented_def example_open_session_def fresh_session_def token_cost_def
      priceOf_def MODEL_PRICING_def)

lemma example_duration: "datetime_sub example_later example_time = 60000000"
  by (simp add: datetime_sub_def example_later_def example_time_def toordinal_def)

theorem derived_metrics_witness:
  "end_time example_closed_session = Some example_later
   \<and> report_duration example_closed_session = 60000000
   \<and> avg_cost_per_token example_closed_session = 181.5 / 5300
   \<and> hourly_rate example_closed_session = 10890
   \<and> output_ratio example_closed_session = 1.12
   \<and> tokens_per_minute example_closed_session = 5300
   \<and> (\<exists>items. report_content example_closed_session = Inr items
        \<and> CostSummary 181.5 2500 2800 5300 (181.5 / 5300) \<in> set items
        \<and> CostAnalysis 60000000 181.5 10890 1.12 5300 \<in> set items)"
proof -
  let ?sd = example_closed_session
  note f = example_closed_fields
  have e: "end_time ?sd = Some example_later" by (rule f)
  have d: "report_duration ?sd = 60000000"
    using derived_metrics [of ?sd] e by (simp add: f example_duration)
  have m: "avg_cost_per_token ?sd = 181.5 / 5300" "hourly_rate ?sd = 10890"
    "output_ratio ?sd = 1.12" "tokens_per_minute ?sd = 5300"
    using derived_metrics [of ?sd]
    by (simp_all add: d f averageCostPerToken_def hourlyRate_def outputToInputRatio_def
        tokensPerMinute_def total_seconds_def)
  obtain items where i: "report_content ?sd = Inr items"
    by (simp add: report_content_def f Let_def)
  from derived_metrics [of ?sd] i
  have "CostSummary 181.5 2500 2800 5300 (181.5 / 5300) \<in> set items"
    "CostAnalysis 60000000 181.5 10890 1.12 5300 \<in> set items"
    by (simp_all add: d f averageCostPerToken_def hourlyRate_def outputToInputRatio_def
        tokensPerMinute_def total_seconds_def)
  with e d m i show ?thesis by blast
qed

subsection \<open>Rendering never divides by zero (C6)\<close>

lemma breakdown_ok:
  "n \<noteq> 0 \<or> d = [] \<Longrightarrow>
     breakdown n d = Inr (map (\<lambda>(k, c). (k, c, real_of_int c / real_of_int n * 100)) d)"
  by (induction d) auto

lemma map_of_all_None: "(\<forall>k. map_of d k = None) \<Longrightarrow> d = []"
  by (cases d) (auto split: if_splits)

lemma counts_match_empty: "counts_match key d [] \<Longrightarrow> d = []"
  by (rule map_of_all_None) (simp add: counts_match_def count_by_def)

lemma consistent_no_entries:
  assumes "aggregates_consistent sd" and "total_entries sd = 0"
  shows "operations sd = []" and "models_used sd = []"
proof -
  from assms have "entries sd = []"
    by (simp add: aggregates_consistent_def)
  with assms(1) show "operations sd = []" and "models_used sd = []"
    by (auto simp: aggregates_consistent_def dest: counts_match_empty)
qed

lemma report_content_consistent:
  assumes "aggregates_consistent sd"
  shows "\<exists>items. report_content sd = Inr items"
proof -
  have "total_entries sd \<noteq> 0 \<or> operations sd = []"
    and "total_entries sd \<noteq> 0 \<or> models_used sd = []"
    using consistent_no_entries [OF assms] by blast+
  then show ?thesis
    by (simp add: report_content_def breakdown_ok Let_def)
qed

lemma consistent_end_update:
  "aggregates_consistent (sd\<lparr>end_time := e, git_commit_end := g\<rparr>) = aggregates_consistent sd"
  by (simp add: aggregates_consistent_def)

lemma zero_duration_floors:
  assumes "report_duration sd = 0"
  shows "hourly_rate sd = total_cost sd / 0.01"
    and "tokens_per_minute sd
           = real_of_int (total_tokens_input sd + total_tokens_output sd) / 1"
  using assms by (simp_all add: hourly_rate_def tokens_per_minute_def total_seconds_def)

lemma end_session_report:
  assumes "fs current_session_file = Some (Session_json sd)"
    and "report_content (sd\<lparr>end_time := Some now, git_commit_end := git\<rparr>) = Inr items"
  shows "end_session fs now git True =
           ((fs(session_id sd @ ''.json'' \<mapsto>
                  Session_json (sd\<lparr>end_time := Some now, git_commit_end := git\<rparr>),
                report_file_name (session_id sd) \<mapsto> Report_md items))
              (current_session_file := None),
            [SessionEnded (session_name sd), TotalCostLine (total_cost sd),
             TotalTokensLine (total_tokens_input sd) (total_tokens_output sd),
             ReportSaved (report_file_name (session_id sd))],
            Inr (Some (report_file_name (session_id sd))))"
  using assms by (simp add: end_session_def generate_markdown_report_def Let_def)

lemma run_session:
  assumes start: "start_session fs0 now_id now_start cwd git name ctx = (fs1, out1, sid)"
    and logs: "log_all fs1 calls = (fs2, out2, r)"
  shows "r = Inr ()"
    and "fs2 current_session_file
           = Some (Session_json (foldl add_entry (fresh_session sid name now_start cwd git)
                                   (map call_entry calls)))"
proof -
  let ?fresh = "fresh_session sid name now_start cwd git"
  from start have fs1: "fs1 current_session_file = Some (Session_json ?fresh)"
    by (auto simp: start_session_eq fresh_session_def)
  from log_all_active [where fs = fs1 and sd = "?fresh" and calls = calls, OF fs1] logs
  show "r = Inr ()"
    and "fs2 current_session_file
           = Some (Session_json (foldl add_entry ?fresh (map call_entry calls)))"
    by auto
qed

text \<open>
  C6. For every session that \<open>start_session\<close> and any sequence of log calls leave in the
  directory, whatever end time and revision are then recorded, rendering the report
  raises nothing, and \<open>end_session\<close> returns the name of the report. With no call the
  number of entries is 0 and both breakdown loops run over an empty dictionary, so
  nothing is divided; with a duration of zero the hourly rate divides by 0.01 and the
  tokens per minute by 1.
\<close>

theorem report_never_divides_by_zero:
  assumes start: "start_session fs0 now_id now_start cwd git name ctx = (fs1, out1, sid)"
    and logs: "log_all fs1 calls = (fs2, out2, r)"
  shows "\<exists>sd. fs2 current_session_file = Some (Session_json sd)
          \<and> (\<forall>e g. \<exists>items. report_content (sd\<lparr>end_time := e, git_commit_end := g\<rparr>) = Inr items)
          \<and> (calls = [] \<longrightarrow>
                total_entries sd = 0
              \<and> breakdown (total_entries sd) (operations sd) = Inr []
              \<and> breakdown (total_entries sd) (models_used sd) = Inr [])
          \<and> (\<forall>e g. report_duration (sd\<lparr>end_time := e, git_commit_end := g\<rparr>) = 0 \<longrightarrow>
                hourly_rate (sd\<lparr>end_time := e, git_commit_end := g\<rparr>) = total_cost sd / 0.01
              \<and> tokens_per_minute (sd\<lparr>end_time := e, git_commit_end := g\<rparr>)
                  = real_of_int (total_tokens_input sd + total_tokens_output sd) / 1)
          \<and> (\<forall>now g. \<exists>fs3 out3.
                end_session fs2 now g True = (fs3, out3, Inr (Some (report_file_name sid))))"
proof -
  let ?sd = "foldl add_entry (fresh_session sid name now_start cwd git) (map call_entry calls)"
  have cur: "fs2 current_session_file = Some (Session_json ?sd)"
    using run_session(2) [OF start logs] .
  have cons: "aggregates_consistent ?sd"
    by (rule foldl_add_entry_consistent) (rule fresh_consistent)
  have render: "\<exists>items. report_content (?sd\<lparr>end_time := e, git_commit_end := g\<rparr>) = Inr items"
    for e g
    by (rule report_content_consistent) (simp add: consistent_end_update cons)
  have empty: "calls = [] \<longrightarrow>
                total_entries ?sd = 0
              \<and> breakdown (total_entries ?sd) (operations ?sd) = Inr []
              \<and> breakdown (total_entries ?sd) (models_used ?sd) = Inr []"
    by (simp add: fresh_session_def)
  have floors: "report_duration (?sd\<lparr>end_time := e, git_commit_end := g\<rparr>) = 0 \<longrightarrow>
                hourly_rate (?sd\<lparr>end_time := e, git_commit_end := g\<rparr>) = total_cost ?sd / 0.01
              \<and> tokens_per_minute (?sd\<lparr>end_time := e, git_commit_end := g\<rparr>)
                  = real_of_int (total_tokens_input ?sd + total_tokens_output ?sd) / 1"
    for e g
    using zero_duration_floors [of "?sd\<lparr>end_time := e, git_commit_end := g\<rparr>"] by simp
  have sid: "session_id ?sd = sid"
    by (simp add: header_foldl_add_entry fresh_session_def)
  have ending: "\<exists>fs3 out3. end_session fs2 now g True = (fs3, out3, Inr (Some (report_file_name sid)))"
    for now g
  proof -
    from render [where e = "Some now" and g = g] obtain items where
      "report_content (?sd\<lparr>end_time := Some now, git_commit_end := g\<rparr>) = Inr items" ..
    from end_session_report [where fs = fs2 and sd = "?sd", OF cur this] sid
    show ?thesis by simp
  qed
  from cur render empty floors ending show ?thesis by blast
qed

theorem report_never_divides_by_zero_witness:
  "\<exists>fs1 out1 fs2 out2 sd items fs3 out3.
     start_session Map.empty example_time example_time ''/work'' None ''demo'' []
       = (fs1, out1, ''20250309_070500'')
     \<and> log_all fs1 [] = (fs2, out2, Inr ())
     \<and> fs2 current_session_file = Some (Session_json sd)
     \<and> total_entries sd = 0
     \<and> report_duration (sd\<lparr>end_time := Some example_time, git_commit_end := None\<rparr>) = 0
     \<and> report_content (sd\<lparr>end_time := Some example_time, git_commit_end := None\<rparr>) = Inr items
     \<and> hourly_rate (sd\<lparr>end_time := Some example_time, git_commit_end := None\<rparr>) = 0
     \<and> tokens_per_minute (sd\<lparr>end_time := Some example_time, git_commit_end := None\<rparr>) = 0
     \<and> end_session fs2 example_time None True
         = (fs3, out3, Inr (Some ''session_report_20250309_070500.md''))"
proof -
  obtain fs1 out1 where
    h1: "start_session Map.empty example_time example_time ''/work'' None ''demo'' []
           = (fs1, out1, ''20250309_070500'')"
    by (simp add: start_session_eq strftime_id_example_time)
  obtain fs2 out2 r where h2: "log_all fs1 [] = (fs2, out2, r)"
    by (rule prod_cases3)
  have r: "r = Inr ()" using h2 by simp
  from report_never_divides_by_zero [OF h1 h2] obtain sd where
    cur: "fs2 current_session_file = Some (Session_json sd)"
    and render: "\<And>e g. \<exists>items. report_content (sd\<lparr>end_time := e, git_commit_end := g\<rparr>) = Inr items"
    and empty: "total_entries sd = 0"
    and floors: "\<And>e g. report_duration (sd\<lparr>end_time := e, git_commit_end := g\<rparr>) = 0 \<longrightarrow>
                hourly_rate (sd\<lparr>end_time := e, git_commit_end := g\<rparr>) = total_cost sd / 0.01
              \<and> tokens_per_minute (sd\<lparr>end_time := e, git_commit_end := g\<rparr>)
                  = real_of_int (total_tokens_input sd + total_tokens_output sd) / 1"
    and ending: "\<And>now g. \<exists>fs3 out3.
                end_session fs2 now g True
                  = (fs3, out3, Inr (Some (report_file_name ''20250309_070500'')))"
    by blast
  let ?sd = "sd\<lparr>end_time := Some example_time, git_commit_end := None\<rparr>"
  have sd: "sd = fresh_session ''20250309_070500'' ''demo'' example_time ''/work'' None"
    using h1 h2 cur by (auto simp: start_session_eq fresh_session_def)
  have d: "report_duration ?sd = 0"
    by (simp add: sd fresh_session_def report_duration_def report_end_time_def datetime_sub_self)
  obtain items where i: "report_content ?sd = Inr items"
    using render by blast
  have f: "hourly_rate ?sd = 0" "tokens_per_minute ?sd = 0"
    using floors [where e = "Some example_time" and g = None] d by (simp_all add: sd fresh_session_def)
  obtain fs3 out3 where
    e: "end_session fs2 example_time None True
          = (fs3, out3, Inr (Some ''session_report_20250309_070500.md''))"
    using ending [where now = example_time and g = None] by (auto simp: report_file_name_def)
  from h1 h2 r cur empty d i f e show ?thesis by blast
qed

subsection \<open>Scenario A (C4)\<close>

lemma report_insights:
  assumes "report_content sd = Inr items"
  shows "HighCostInsight c \<in> set items \<longleftrightarrow> HighCostInsight c \<in> set (insights sd)"
    and "LowOutputRatioInsight \<in> set items \<longleftrightarrow> LowOutputRatioInsight \<in> set (insights sd)"
    and "HighOutputRatioInsight \<in> set items \<longleftrightarrow> HighOutputRatioInsight \<in> set (insights sd)"
    and "HeavyOpusInsight \<in> set items \<longleftrightarrow> HeavyOpusInsight \<in> set (insights sd)"
  using assms
  by (auto simp: report_content_def activity_row_def Let_def split: sum.splits)

lemma zero_pad_digits: "set (zero_pad w n) \<subseteq> set ''0123456789''"
proof (induction w n rule: zero_pad.induct)
  case (1 n)
  then show ?case
    using digit_char_cases [of n] by (subst zero_pad.simps) simp
next
  case (2 w n)
  then show ?case
    using digit_char_cases [of n] by (subst zero_pad.simps) simp
qed

lemma strftime_id_chars: "set (strftime_id d) \<subseteq> set ''0123456789_''"
proof -
  have z: "set (zero_pad w n) \<subseteq> set ''0123456789_''" for w n
    by (rule subset_trans [OF zero_pad_digits]) simp
  have u: "set ''_'' \<subseteq> set ''0123456789_''"
    by simp
  show ?thesis
    unfolding strftime_id_def set_append by (intro Un_least z u)
qed

lemma strftime_id_not_current: "strftime_id d @ ''.json'' \<noteq> current_session_file"
proof
  assume "strftime_id d @ ''.json'' = current_session_file"
  then have "set (strftime_id d @ ''.json'') = set current_session_file"
    by simp
  then have "CHR ''c'' \<in> set (strftime_id d @ ''.json'')"
    by (simp add: current_session_file_def)
  then have "CHR ''c'' \<in> set (strftime_id d)"
    by simp
  with strftime_id_chars [of d] have "CHR ''c'' \<in> set ''0123456789_''"
    by blast
  then show False by simp
qed

lemma session_file_not_report: "sid @ ''.json'' \<noteq> report_file_name sid"
proof
  assume "sid @ ''.json'' = report_file_name sid"
  then have "length (sid @ ''.json'') = length (report_file_name sid)" by simp
  then show False by (simp add: report_file_name_def)
qed

lemma report_not_current: "report_file_name sid \<noteq> current_session_file"
  by (simp add: report_file_name_def current_session_file_def)

text \<open>
  C4. \<open>start("demo")\<close>, then \<open>log(1500, 800, "claude-sonnet-4", "chat", "x")\<close>, then
  \<open>end()\<close>, whatever the clock, the directory and the revisions are: nothing raises, the
  session's total cost is 16.5, \<open>end_session\<close> returns the report's name, no session
  is active afterwards, the closed session is kept under its identifier with total cost
  16.5, and the report written holds the high cost insight (with 16.5) and neither of the
  two ratio insights (nor the one on heavy Opus usage).
\<close>

theorem scenario_A:
  assumes start: "start_session fs0 t1 t2 cwd g1 ''demo'' ctx = (fs1, out1, sid)"
    and log: "log_usage fs1 t3 1500 800 ''claude-sonnet-4'' ''chat'' ''x'' = (fs2, out2, r2)"
    and ending: "end_session fs2 t4 g2 True = (fs3, out3, r3)"
  shows "r2 = Inr () \<and> r3 = Inr (Some (report_file_name sid))
       \<and> (\<exists>sd. fs2 current_session_file = Some (Session_json sd) \<and> total_cost sd = 16.5)
       \<and> fs3 current_session_file = None
       \<and> (\<exists>sd. fs3 (sid @ ''.json'') = Some (Session_json sd)
            \<and> total_cost sd = 16.5 \<and> end_time sd = Some t4)
       \<and> TotalCostLine 16.5 \<in> set out3
       \<and> (\<exists>items. fs3 (report_file_name sid) = Some (Report_md items)
            \<and> HighCostInsight 16.5 \<in> set items
            \<and> LowOutputRatioInsight \<notin> set items
            \<and> HighOutputRatioInsight \<notin> set items
            \<and> HeavyOpusInsight \<notin> set items)"
proof -
  let ?fresh = "fresh_session sid ''demo'' t2 cwd g1"
  let ?sd = "add_entry ?fresh (new_entry t3 1500 800 ''claude-sonnet-4'' ''chat'' ''x'')"
  let ?closed = "?sd\<lparr>end_time := Some t4, git_commit_end := g2\<rparr>"
  from start have sid: "sid = strftime_id t1"
    by (auto simp: start_session_eq)
  from start have fs1: "fs1 current_session_file = Some (Session_json ?fresh)"
    by (auto simp: start_session_eq fresh_session_def)
  from log_usage_active [where fs = fs1 and sd = "?fresh", OF fs1] log
  have r2: "r2 = Inr ()" and fs2: "fs2 current_session_file = Some (Session_json ?sd)"
    by auto
  have fields: "total_cost ?sd = 16.5" "total_tokens_input ?sd = 1500"
    "total_tokens_output ?sd = 800" "total_entries ?sd = 1" "session_id ?sd = sid"
    "operations ?sd = [(''chat'', 1)]" "models_used ?sd = [(''claude-sonnet-4'', 1)]"
    by (simp_all add: add_entry_def new_entry_def fresh_session_def incremented_def
        token_cost_def priceOf_def MODEL_PRICING_def)
  have ins: "insights ?closed = [HighCostInsight 16.5]"
    by (simp add: insights_def output_ratio_def fields)
  obtain items where items: "report_content ?closed = Inr items"
    by (simp add: report_content_def fields Let_def)
  have ended: "end_session fs2 t4 g2 True =
           ((fs2(sid @ ''.json'' \<mapsto> Session_json ?closed,
                 report_file_name sid \<mapsto> Report_md items))
              (current_session_file := None),
            [SessionEnded (session_name ?sd), TotalCostLine 16.5, TotalTokensLine 1500 800,
             ReportSaved (report_file_name sid)],
            Inr (Some (report_file_name sid)))"
    using end_session_report [where fs = fs2 and sd = "?sd", OF fs2 items]
    unfolding fields .
  from ended ending
  have r3: "r3 = Inr (Some (report_file_name sid))"
    and out3: "TotalCostLine 16.5 \<in> set out3"
    and fs3_eq: "fs3 = (fs2(sid @ ''.json'' \<mapsto> Session_json ?closed,
                           report_file_name sid \<mapsto> Report_md items))
                        (current_session_file := None)"
    by simp_all
  have fs3: "fs3 (report_file_name sid) = Some (Report_md items)"
    and none: "fs3 current_session_file = None"
    by (simp_all add: fs3_eq report_not_current)
  have closed: "fs3 (sid @ ''.json'') = Some (Session_json ?closed)"
    using strftime_id_not_current [of t1] session_file_not_report [of sid]
    by (simp add: fs3_eq sid)
  have cf: "total_cost ?closed = 16.5" "end_time ?closed = Some t4"
    using fields(1) by simp_all
  from report_insights [OF items] ins
  have "HighCostInsight 16.5 \<in> set items" "LowOutputRatioInsight \<notin> set items"
    "HighOutputRatioInsight \<notin> set items" "HeavyOpusInsight \<notin> set items"
    by simp_all
  with r2 r3 fs2 fields(1) out3 fs3 none closed cf show ?thesis by blast
qed

theorem scenario_A_witness:
  "\<exists>fs1 out1 fs2 out2 fs3 out3 items.
     start_session Map.empty example_time example_time ''/work'' None ''demo'' []
       = (fs1, out1, ''20250309_070500'')
     \<and> log_usage fs1 example_time 1500 800 ''claude-sonnet-4'' ''chat'' ''x'' = (fs2, out2, Inr ())
     \<and> end_session fs2 example_later None True
         = (fs3, out3, Inr (Some ''session_report_20250309_070500.md''))
     \<and> TotalCostLine 16.5 \<in> set out3
     \<and> fs3 ''session_report_20250309_070500.md'' = Some (Report_md items)
     \<and> HighCostInsight 16.5 \<in> set items
     \<and> LowOutputRatioInsight \<notin> set items
     \<and> HighOutputRatioInsight \<notin> set items"
proof -
  obtain fs1 out1 where
    h1: "start_session Map.empty example_time example_time ''/work'' None ''demo'' []
           = (fs1, out1, ''20250309_070500'')"
    by (simp add: start_session_eq strftime_id_example_time)
  obtain fs2 out2 r2 where
    h2: "log_usage fs1 example_time 1500 800 ''claude-sonnet-4'' ''chat'' ''x'' = (fs2, out2, r2)"
    by (rule prod_cases3)
  obtain fs3 out3 r3 where h3: "end_session fs2 example_later None True = (fs3, out3, r3)"
    by (rule prod_cases3)
  from scenario_A [OF h1 h2 h3] h1 h2 h3 show ?thesis
    by (auto simp: report_file_name_def)
qed

subsection \<open>Scenario B (C5)\<close>

text \<open>
  C5. After \<open>start_session\<close>, two log calls with the model \<^verbatim>\<open>gpt-5\<close>, whatever their
  tokens, operation, context and time: \<^verbatim>\<open>gpt-5\<close> has no pricing entry, each call prints
  the warning and prices its event at 3 and 15 per thousand, the entry of
  \<^verbatim>\<open>claude-sonnet-4\<close>; both events keep the model \<^verbatim>\<open>gpt-5\<close>, and the per-model
  counter is exactly \<open>gpt-5 \<mapsto> 2\<close>, with no key \<^verbatim>\<open>claude-sonnet-4\<close>.
\<close>

theorem scenario_B:
  assumes start: "start_session fs0 t1 t2 cwd g name ctx = (fs1, out1, sid)"
    and log_a: "log_usage fs1 ta in_a out_a ''gpt-5'' op_a ctx_a = (fs2, out2, r2)"
    and log_b: "log_usage fs2 tb in_b out_b ''gpt-5'' op_b ctx_b = (fs3, out3, r3)"
  shows "r2 = Inr () \<and> r3 = Inr ()
       \<and> map_of MODEL_PRICING ''gpt-5'' = None
       \<and> map_of MODEL_PRICING ''claude-sonnet-4''
            = Some \<lparr>input_price_per_1k = 3, output_price_per_1k = 15\<rparr>
       \<and> UnknownModelWarning ''gpt-5'' \<in> set out2 \<and> UnknownModelWarning ''gpt-5'' \<in> set out3
       \<and> (\<exists>sd. fs3 current_session_file = Some (Session_json sd)
            \<and> models_used sd = [(''gpt-5'', 2)]
            \<and> map_of (models_used sd) ''gpt-5'' = Some 2
            \<and> map_of (models_used sd) ''claude-sonnet-4'' = None
            \<and> map model (entries sd) = [''gpt-5'', ''gpt-5'']
            \<and> map cost_input (entries sd) = [token_cost in_a 3, token_cost in_b 3]
            \<and> map cost_output (entries sd) = [token_cost out_a 15, token_cost out_b 15]
            \<and> map entry_total_cost (entries sd)
                = [token_cost in_a 3 + token_cost out_a 15, token_cost in_b 3 + token_cost out_b 15])"
proof -
  let ?fresh = "fresh_session sid name t2 cwd g"
  let ?sd1 = "add_entry ?fresh (new_entry ta in_a out_a ''gpt-5'' op_a ctx_a)"
  let ?sd2 = "add_entry ?sd1 (new_entry tb in_b out_b ''gpt-5'' op_b ctx_b)"
  have unknown: "map_of MODEL_PRICING ''gpt-5'' = None"
    by (simp add: MODEL_PRICING_def)
  from start have fs1: "fs1 current_session_file = Some (Session_json ?fresh)"
    by (auto simp: start_session_eq fresh_session_def)
  from log_usage_active [where fs = fs1 and sd = "?fresh", OF fs1] log_a
  have r2: "r2 = Inr ()" and fs2: "fs2 current_session_file = Some (Session_json ?sd1)"
    and w2: "UnknownModelWarning ''gpt-5'' \<in> set out2"
    by (auto simp: unknown_model_warning_def unknown)
  from log_usage_active [where fs = fs2 and sd = "?sd1", OF fs2] log_b
  have r3: "r3 = Inr ()" and fs3: "fs3 current_session_file = Some (Session_json ?sd2)"
    and w3: "UnknownModelWarning ''gpt-5'' \<in> set out3"
    by (auto simp: unknown_model_warning_def unknown)
  have p: "priceOf ''gpt-5'' = \<lparr>input_price_per_1k = 3, output_price_per_1k = 15\<rparr>"
    by (simp add: priceOf_def unknown)
  have "models_used ?sd2 = [(''gpt-5'', 2)]"
    "map model (entries ?sd2) = [''gpt-5'', ''gpt-5'']"
    "map cost_input (entries ?sd2) = [token_cost in_a 3, token_cost in_b 3]"
    "map cost_output (entries ?sd2) = [token_cost out_a 15, token_cost out_b 15]"
    "map entry_total_cost (entries ?sd2)
       = [token_cost in_a 3 + token_cost out_a 15, token_cost in_b 3 + token_cost out_b 15]"
    by (simp_all add: add_entry_def new_entry_def fresh_session_def incremented_def p)
  with r2 r3 unknown fallback_entry w2 w3 fs3 show ?thesis
    by auto
qed

theorem scenario_B_witness:
  "\<exists>fs1 out1 fs2 fs3 sd.
     start_session Map.empty example_time example_time ''/work'' None ''demo'' []
       = (fs1, out1, ''20250309_070500'')
     \<and> log_usage fs1 example_time 1000 2000 ''gpt-5'' ''chat'' []
         = (fs2, [UnknownModelWarning ''gpt-5'', Logged 1000 2000 33 ''gpt-5''], Inr ())
     \<and> log_usage fs2 example_later 500 100 ''gpt-5'' ''review'' []
         = (fs3, [UnknownModelWarning ''gpt-5'', Logged 500 100 3 ''gpt-5''], Inr ())
     \<and> fs3 current_session_file = Some (Session_json sd)
     \<and> models_used sd = [(''gpt-5'', 2)]
     \<and> map entry_total_cost (entries sd) = [33, 3]"
proof -
  obtain fs1 out1 where
    h1: "start_session Map.empty example_time example_time ''/work'' None ''demo'' []
           = (fs1, out1, ''20250309_070500'')"
    by (simp add: start_session_eq strftime_id_example_time)
  then have fs1: "fs1 current_session_file
      = Some (Session_json (fresh_session ''20250309_070500'' ''demo'' example_time ''/work'' None))"
    by (auto simp: start_session_eq fresh_session_def)
  obtain fs2 where
    h2: "log_usage fs1 example_time 1000 2000 ''gpt-5'' ''chat'' []
           = (fs2, [UnknownModelWarning ''gpt-5'', Logged 1000 2000 33 ''gpt-5''], Inr ())"
    using log_usage_active [where fs = fs1, OF fs1]
    by (simp add: unknown_model_warning_def new_entry_def token_cost_def priceOf_def
        MODEL_PRICING_def)
  then have fs2: "fs2 current_session_file
      = Some (Session_json (add_entry (fresh_session ''20250309_070500'' ''demo'' example_time ''/work'' None)
           (new_entry example_time 1000 2000 ''gpt-5'' ''chat'' [])))"
    using log_usage_active [where fs = fs1, OF fs1] by auto
  obtain fs3 where
    h3: "log_usage fs2 example_later 500 100 ''gpt-5'' ''review'' []
           = (fs3, [UnknownModelWarning ''gpt-5'', Logged 500 100 3 ''gpt-5''], Inr ())"
    using log_usage_active [where fs = fs2, OF fs2]
    by (simp add: unknown_model_warning_def new_entry_def token_cost_def priceOf_def
        MODEL_PRICING_def)
  from scenario_B [OF h1 h2 h3] obtain sd where
    "fs3 current_session_file = Some (Session_json sd)" "models_used sd = [(''gpt-5'', 2)]"
    "map entry_total_cost (entries sd)
       = [token_cost 1000 3 + token_cost 2000 15, token_cost 500 3 + token_cost 100 15]"
    by auto
  with h1 h2 h3 show ?thesis
    by (auto simp: token_cost_def)
qed

end
